theory Spec2Isabelle
  imports Complex_Main "HOL-Library.Word" "HOL-Library.Multiset"
begin

unbundle bit_operations_syntax

section \<open>Numbers\<close>

text \<open>
  The program computes with JavaScript numbers. The model keeps the three special values
  of a JavaScript number (\<open>NaN\<close>, \<open>+Infinity\<close>, \<open>-Infinity\<close>) and represents every finite
  value by the real number it denotes, so arithmetic on finite values is exact: the
  rounding of a result to 53 bits is not part of the model, and neither is the sign of
  zero (no operation below can tell \<open>+0\<close> from \<open>-0\<close>: the divisors are counts or
  \<open>Math.abs\<close> results). The special values behave as in IEEE 754: \<open>0 / 0\<close>,
  \<open>Infinity / Infinity\<close>, \<open>0 * Infinity\<close> and \<open>Infinity - Infinity\<close> are \<open>NaN\<close>, and
  \<open>NaN\<close> is absorbing.
\<close>

datatype jsnum = NaN | PInf | NInf | Fin real

fun isNaN :: "jsnum \<Rightarrow> bool" where
  "isNaN NaN = True"
| "isNaN PInf = False"
| "isNaN NInf = False"
| "isNaN (Fin a) = False"

definition num :: "nat \<Rightarrow> jsnum" where
  \<comment> \<open>a count (a string or array length) as a number\<close>
  "num n = Fin (real n)"

definition inf_of_sign :: "real \<Rightarrow> jsnum" where
  \<comment> \<open>the infinity with the sign of \<open>a\<close>; \<open>0 * Infinity\<close> and \<open>0 / 0\<close> are \<open>NaN\<close>\<close>
  "inf_of_sign a = (if 0 < a then PInf else if a < 0 then NInf else NaN)"

fun jneg :: "jsnum \<Rightarrow> jsnum" where
  "jneg NaN = NaN"
| "jneg PInf = NInf"
| "jneg NInf = PInf"
| "jneg (Fin a) = Fin (- a)"

fun jabs :: "jsnum \<Rightarrow> jsnum" where
  \<comment> \<open>\<open>Math.abs\<close>\<close>
  "jabs NaN = NaN"
| "jabs PInf = PInf"
| "jabs NInf = PInf"
| "jabs (Fin a) = Fin \<bar>a\<bar>"

fun jadd :: "jsnum \<Rightarrow> jsnum \<Rightarrow> jsnum" where
  "jadd (Fin a) (Fin b) = Fin (a + b)"
| "jadd (Fin a) PInf = PInf"
| "jadd (Fin a) NInf = NInf"
| "jadd PInf (Fin b) = PInf"
| "jadd NInf (Fin b) = NInf"
| "jadd PInf PInf = PInf"
| "jadd NInf NInf = NInf"
| "jadd PInf NInf = NaN"
| "jadd NInf PInf = NaN"
| "jadd NaN y = NaN"
| "jadd x NaN = NaN"

definition jsub :: "jsnum \<Rightarrow> jsnum \<Rightarrow> jsnum" where
  "jsub x y = jadd x (jneg y)"

fun jmul :: "jsnum \<Rightarrow> jsnum \<Rightarrow> jsnum" where
  "jmul (Fin a) (Fin b) = Fin (a * b)"
| "jmul (Fin a) PInf = inf_of_sign a"
| "jmul (Fin a) NInf = inf_of_sign (- a)"
| "jmul PInf (Fin b) = inf_of_sign b"
| "jmul NInf (Fin b) = inf_of_sign (- b)"
| "jmul PInf PInf = PInf"
| "jmul NInf NInf = PInf"
| "jmul PInf NInf = NInf"
| "jmul NInf PInf = NInf"
| "jmul NaN y = NaN"
| "jmul x NaN = NaN"

fun jdiv :: "jsnum \<Rightarrow> jsnum \<Rightarrow> jsnum" where
  "jdiv (Fin a) (Fin b) = (if b = 0 then inf_of_sign a else Fin (a / b))"
| "jdiv (Fin a) PInf = Fin 0"
| "jdiv (Fin a) NInf = Fin 0"
| "jdiv PInf (Fin b) = (if b < 0 then NInf else PInf)"
| "jdiv NInf (Fin b) = (if b < 0 then PInf else NInf)"
| "jdiv PInf PInf = NaN"
| "jdiv NInf NInf = NaN"
| "jdiv PInf NInf = NaN"
| "jdiv NInf PInf = NaN"
| "jdiv NaN y = NaN"
| "jdiv x NaN = NaN"

fun Math_floor :: "jsnum \<Rightarrow> jsnum" where
  "Math_floor (Fin a) = Fin (of_int \<lfloor>a\<rfloor>)"
| "Math_floor NaN = NaN"
| "Math_floor PInf = PInf"
| "Math_floor NInf = NInf"

fun Math_ceil :: "jsnum \<Rightarrow> jsnum" where
  "Math_ceil (Fin a) = Fin (of_int \<lceil>a\<rceil>)"
| "Math_ceil NaN = NaN"
| "Math_ceil PInf = PInf"
| "Math_ceil NInf = NInf"

fun pow_half :: "jsnum \<Rightarrow> jsnum" where
  \<comment> \<open>\<open>x ** 0.5\<close>\<close>
  "pow_half (Fin a) = (if a < 0 then NaN else Fin (sqrt a))"
| "pow_half NaN = NaN"
| "pow_half PInf = PInf"
| "pow_half NInf = PInf"

fun jlt :: "jsnum \<Rightarrow> jsnum \<Rightarrow> bool" where
  \<comment> \<open>\<open>x < y\<close>: false as soon as one side is \<open>NaN\<close>\<close>
  "jlt (Fin a) (Fin b) = (a < b)"
| "jlt (Fin a) PInf = True"
| "jlt (Fin a) NInf = False"
| "jlt PInf y = False"
| "jlt NInf (Fin b) = True"
| "jlt NInf PInf = True"
| "jlt NInf NInf = False"
| "jlt NaN y = False"
| "jlt x NaN = False"

fun jle :: "jsnum \<Rightarrow> jsnum \<Rightarrow> bool" where
  \<comment> \<open>\<open>x <= y\<close>\<close>
  "jle (Fin a) (Fin b) = (a \<le> b)"
| "jle (Fin a) PInf = True"
| "jle (Fin a) NInf = False"
| "jle PInf PInf = True"
| "jle PInf (Fin b) = False"
| "jle PInf NInf = False"
| "jle NInf (Fin b) = True"
| "jle NInf PInf = True"
| "jle NInf NInf = True"
| "jle NaN y = False"
| "jle x NaN = False"

definition jgt :: "jsnum \<Rightarrow> jsnum \<Rightarrow> bool" where
  "jgt x y = jlt y x"

definition jge :: "jsnum \<Rightarrow> jsnum \<Rightarrow> bool" where
  "jge x y = jle y x"

definition strictEq :: "jsnum \<Rightarrow> jsnum \<Rightarrow> bool" where
  \<comment> \<open>\<open>x === y\<close> on numbers: \<open>NaN\<close> is not equal to itself\<close>
  "strictEq x y = (x = y \<and> \<not> isNaN x)"

subsection \<open>\<open>Math.copySign\<close> and \<open>Math.legacyRound\<close>\<close>

definition copySign :: "jsnum \<Rightarrow> jsnum \<Rightarrow> jsnum" where
  "copySign x y = jmul x (jdiv y (jabs y))"

definition legacyRound :: "jsnum \<Rightarrow> nat \<Rightarrow> jsnum" where
  \<comment> \<open>\<open>points\<close> is the number of decimal places; the callers pass 0, 1 or 2\<close>
  "legacyRound number points =
     (let p = Fin (10 ^ points)
      in jdiv (Math_floor (jadd (jmul number p) (copySign (Fin 0.5) number))) p)"

section \<open>Strings\<close>

text \<open>
  A JavaScript string is a sequence of UTF-16 code units; \<open>length\<close>, \<open>slice\<close>, \<open>split\<close> and
  the regular expressions of the program (none has the \<open>u\<close> flag) all work on code units.
  \<open>js\<close> writes an ASCII literal as such a string.
\<close>

type_synonym jstring = "16 word list"

definition js :: "string \<Rightarrow> jstring" where
  "js s = map of_char s"

definition getGradeSuffix :: "jsnum \<Rightarrow> jstring" where
  \<comment> \<open>\<open>gradeMap[grade]\<close> finds an entry only when the floored grade is the number 1, 2 or 3;
      the three suffixes are non-empty strings, hence truthy\<close>
  "getGradeSuffix grade0 =
     (let grade = Math_floor grade0;
          gradeMap = map_of [(Fin 1, js ''st''), (Fin 2, js ''nd''), (Fin 3, js ''rd'')]
      in case gradeMap grade of
           Some s \<Rightarrow> (if s \<noteq> [] then s else js ''th'')
         | None \<Rightarrow> js ''th'')"

section \<open>Tokenizer\<close>

definition isPunctuation :: "16 word \<Rightarrow> bool" where
  \<comment> \<open>the character class of \<open>punctuationRE\<close>: U+2000..U+206F, U+2E00..U+2E7F and, in the
      order of the source, backslash, apostrophe, \<open>!\<close>, double quote, \<open>#$%&()*+,-./:;<=>?@[]^_\<close>,
      backquote, \<open>{|}~\<close>\<close>
  "isPunctuation c =
     ((0x2000 \<le> c \<and> c \<le> 0x206F) \<or> (0x2E00 \<le> c \<and> c \<le> 0x2E7F) \<or>
      c \<in> set [0x5C, 0x27, 0x21, 0x22, 0x23, 0x24, 0x25, 0x26, 0x28, 0x29, 0x2A, 0x2B, 0x2C,
                 0x2D, 0x2E, 0x2F, 0x3A, 0x3B, 0x3C, 0x3D, 0x3E, 0x3F, 0x40, 0x5B, 0x5D, 0x5E,
                 0x5F, 0x60, 0x7B, 0x7C, 0x7D, 0x7E])"

definition removePunctuation :: "jstring \<Rightarrow> jstring" where
  \<comment> \<open>\<open>text.replace(punctuationRE, '')\<close> with the \<open>g\<close> flag deletes every such code unit\<close>
  "removePunctuation t = filter (\<lambda>c. \<not> isPunctuation c) t"

definition removeSpaces :: "jstring \<Rightarrow> jstring" where
  \<comment> \<open>\<open>text.replace(/ /g, '')\<close>\<close>
  "removeSpaces t = filter (\<lambda>c. c \<noteq> 0x20) t"

definition charCount :: "jstring \<Rightarrow> bool \<Rightarrow> nat" where
  "charCount t ignoreSpaces = length (if ignoreSpaces then removeSpaces t else t)"

definition letterCount :: "jstring \<Rightarrow> bool \<Rightarrow> nat" where
  "letterCount t ignoreSpaces =
     length (removePunctuation (if ignoreSpaces then removeSpaces t else t))"

fun splitOn :: "('a \<Rightarrow> bool) \<Rightarrow> 'a list \<Rightarrow> 'a list list" where
  \<comment> \<open>\<open>String.prototype.split\<close> for a separator that matches exactly one code unit:
      \<open>n\<close> separators cut the string into \<open>n + 1\<close> pieces, some of them empty\<close>
  "splitOn d [] = [[]]"
| "splitOn d (c # cs) =
     (if d c then [] # splitOn d cs
      else (let r = splitOn d cs in (c # hd r) # tl r))"

definition isDelimiter :: "16 word \<Rightarrow> bool" where
  \<comment> \<open>\<open>/,| |\n|\r/\<close>: comma, space, line feed, carriage return\<close>
  "isDelimiter c = (c \<in> set [0x2C, 0x20, 0x0A, 0x0D])"

definition split_js :: "jstring \<Rightarrow> jstring list" where
  \<comment> \<open>\<open>Readability.split\<close>; \<open>filter(n => n)\<close> keeps the non-empty strings\<close>
  "split_js t = filter (\<lambda>n. n \<noteq> []) (splitOn isDelimiter t)"

definition lexiconCount :: "jstring \<Rightarrow> bool \<Rightarrow> nat" where
  "lexiconCount t0 removePunct =
     (let t = (if removePunct then removePunctuation t0 else t0)
      in length (filter (\<lambda>n. n \<noteq> []) (splitOn isDelimiter t)))"

subsection \<open>Sentences\<close>

text \<open>
  The sentence separator is \<^verbatim>\<open>/ *[.?!]['")\]]*[ |\n](?=[A-Z])/g\<close>. \<open>sentenceBoundary s\<close> is
  the length of its match at the start of \<open>s\<close>, if there is one. Both stars are greedy, and
  giving a code unit back never helps: a space is no end mark, and a closing quote or
  bracket is none of space, \<open>|\<close> and line feed. The lookahead asks for one more code unit, an
  ASCII capital, which is not part of the match.
\<close>

definition isEndMark :: "16 word \<Rightarrow> bool" where
  "isEndMark c = (c \<in> set [0x2E, 0x3F, 0x21])"

definition isCloser :: "16 word \<Rightarrow> bool" where
  \<comment> \<open>apostrophe, double quote, \<open>)\<close>, \<open>]\<close>\<close>
  "isCloser c = (c \<in> set [0x27, 0x22, 0x29, 0x5D])"

definition isGap :: "16 word \<Rightarrow> bool" where
  \<comment> \<open>\<open>[ |\n]\<close>: space, vertical bar, line feed\<close>
  "isGap c = (c \<in> set [0x20, 0x7C, 0x0A])"

definition isCapital :: "16 word \<Rightarrow> bool" where
  "isCapital c = (0x41 \<le> c \<and> c \<le> 0x5A)"

definition sentenceBoundary :: "jstring \<Rightarrow> nat option" where
  "sentenceBoundary s =
     (let spaces = takeWhile (\<lambda>c. c = 0x20) s
      in case dropWhile (\<lambda>c. c = 0x20) s of
           [] \<Rightarrow> None
         | m # r \<Rightarrow>
             if isEndMark m then
               (let closers = takeWhile isCloser r
                in case dropWhile isCloser r of
                     [] \<Rightarrow> None
                   | g # r' \<Rightarrow>
                       if isGap g then
                         (case r' of
                            [] \<Rightarrow> None
                          | u # r'' \<Rightarrow>
                              if isCapital u
                              then Some (length spaces + 1 + length closers + 1)
                              else None)
                       else None)
             else None)"

lemma sentenceBoundary_pos: "sentenceBoundary s = Some k \<Longrightarrow> 0 < k"
  by (auto simp: sentenceBoundary_def Let_def split: list.splits if_splits)

function splitSentences :: "jstring \<Rightarrow> jstring list" where
  \<comment> \<open>\<open>text.split(separator)\<close>: the separator is tried at every position from the end of the
      previous match on; where it matches, the piece read so far is closed and reading goes
      on behind the match; the rest of the string is the last piece\<close>
  "splitSentences [] = [[]]"
| "splitSentences (c # cs) =
     (case sentenceBoundary (c # cs) of
        Some k \<Rightarrow> [] # splitSentences (drop k (c # cs))
      | None \<Rightarrow> (let r = splitSentences cs in (c # hd r) # tl r))"
  by pat_completeness auto
termination
  by (relation "measure length") (auto dest: sentenceBoundary_pos)

definition sentenceCount :: "jstring \<Rightarrow> nat" where
  "sentenceCount t =
     (let sentences = splitSentences t;
          ignoreCount = fold (\<lambda>sentence n. if lexiconCount sentence True \<le> 2 then n + 1 else n)
                          sentences (0::nat);
          validSentences = int (length sentences) - int ignoreCount
      in nat (if validSentences > 1 then validSentences else 1))"

section \<open>External collaborators\<close>

text \<open>
  The syllable estimator (\<open>./syllable\<close>), \<open>pluralize\<close>, the easy-word list
  (\<open>../data/easy_words\<close>) and the host's \<open>toLocaleLowerCase\<close> are not part of the
  sources at hand. The model takes them as parameters; nothing is assumed about them.
  \<open>toLocaleLowerCase\<close> takes the locale it is called with, if any.
\<close>

record env =
  syllable :: "jstring \<Rightarrow> nat"
  pluralize :: "jstring \<Rightarrow> jstring"
  easyWords :: "jstring list"
  toLocaleLowerCase :: "jstring option \<Rightarrow> jstring \<Rightarrow> jstring"

definition easyWordSet :: "env \<Rightarrow> jstring set" where
  "easyWordSet e = set (easyWords e)"

definition syllableCount :: "env \<Rightarrow> jstring \<Rightarrow> nat" where
  \<comment> \<open>no caller passes \<open>lang\<close>, which is therefore its default \<open>en-US\<close>\<close>
  "syllableCount e t0 =
     (let t1 = toLocaleLowerCase e (Some (js ''en-US'')) t0;
          t = removePunctuation t1
      in if t = [] then 0 else syllable e t)"

section \<open>Metric primitives\<close>

definition guardNaN :: "jsnum \<Rightarrow> jsnum" where
  \<comment> \<open>\<open>!isNaN(returnVal) ? returnVal : 0.0\<close>\<close>
  "guardNaN returnVal = (if \<not> isNaN returnVal then returnVal else Fin 0)"

definition averageSentenceLength :: "jstring \<Rightarrow> jsnum" where
  "averageSentenceLength t =
     (let asl = jdiv (num (lexiconCount t True)) (num (sentenceCount t));
          returnVal = legacyRound asl 1
      in guardNaN returnVal)"

definition averageSyllablePerWord :: "env \<Rightarrow> jstring \<Rightarrow> jsnum" where
  "averageSyllablePerWord e t =
     (let syllables = syllableCount e t;
          words = lexiconCount t True;
          syllablePerWord = jdiv (num syllables) (num words);
          returnVal = legacyRound syllablePerWord 1
      in guardNaN returnVal)"

definition averageCharacterPerWord :: "jstring \<Rightarrow> jsnum" where
  "averageCharacterPerWord t =
     (let charactersPerWord = jdiv (num (charCount t True)) (num (lexiconCount t True));
          returnVal = legacyRound charactersPerWord 2
      in guardNaN returnVal)"

definition averageLetterPerWord :: "jstring \<Rightarrow> jsnum" where
  "averageLetterPerWord t =
     (let lettersPerWord = jdiv (num (letterCount t True)) (num (lexiconCount t True));
          returnVal = legacyRound lettersPerWord 2
      in guardNaN returnVal)"

definition averageSentencePerWord :: "jstring \<Rightarrow> jsnum" where
  "averageSentencePerWord t =
     (let sentencesPerWord = jdiv (num (sentenceCount t)) (num (lexiconCount t True));
          returnVal = legacyRound sentencesPerWord 2
      in guardNaN returnVal)"

section \<open>Lexical normalizer and difficult words\<close>

definition endsWith :: "jstring \<Rightarrow> jstring \<Rightarrow> bool" where
  "endsWith w suffix =
     (length suffix \<le> length w \<and> drop (length w - length suffix) w = suffix)"

definition dropLast :: "nat \<Rightarrow> jstring \<Rightarrow> jstring" where
  \<comment> \<open>\<open>word.slice(0, -k)\<close>: all but the last \<open>k\<close> code units, the empty string when there
      are fewer\<close>
  "dropLast k w = take (length w - k) w"

definition presentTense :: "env \<Rightarrow> jstring \<Rightarrow> jstring" where
  "presentTense e word =
     (if length word < 6 then word
      else if endsWith word (js ''ed'') then
        (if dropLast 1 word \<in> easyWordSet e then dropLast 1 word
         else dropLast 2 word)
      else if endsWith word (js ''ing'') then
        (let suffixIngToE = dropLast 3 word @ js ''e''
         in if suffixIngToE \<in> easyWordSet e then suffixIngToE
            else dropLast 3 word)
      else word)"

definition isWordChar :: "16 word \<Rightarrow> bool" where
  \<comment> \<open>the class \<^verbatim>\<open>[\w=...]\<close> of the difficult-word scan: \<open>A-Z\<close>, \<open>a-z\<close>, \<open>0-9\<close>, \<open>_\<close>, then \<open>=\<close> and
      the two curly single quotes U+2018 and U+2019\<close>
  "isWordChar c =
     ((0x41 \<le> c \<and> c \<le> 0x5A) \<or> (0x61 \<le> c \<and> c \<le> 0x7A) \<or> (0x30 \<le> c \<and> c \<le> 0x39) \<or>
      c \<in> set [0x5F, 0x3D, 0x2018, 0x2019])"

definition matchWords :: "jstring \<Rightarrow> jstring list option" where
  \<comment> \<open>\<open>text.match(/[...]+/g)\<close>: the maximal runs of class members from left to right, that is
      the non-empty pieces between the other code units; \<open>null\<close> when there is none\<close>
  "matchWords t =
     (let runs = filter (\<lambda>w. w \<noteq> []) (splitOn (\<lambda>c. \<not> isWordChar c) t)
      in if runs = [] then None else Some runs)"

definition Set_add :: "'a \<Rightarrow> 'a list \<Rightarrow> 'a list" where
  \<comment> \<open>a JavaScript \<open>Set\<close> is kept as the list of its members in insertion order\<close>
  "Set_add x S = (if x \<in> set S then S else S @ [x])"

definition difficultWords :: "env \<Rightarrow> jstring \<Rightarrow> nat \<Rightarrow> nat" where
  "difficultWords e t syllableThreshold =
     (case matchWords t of
        None \<Rightarrow> 0
      | Some textList \<Rightarrow>
          length
            (fold (\<lambda>word diffWordsSet.
                     (let normalized = presentTense e (pluralize e (toLocaleLowerCase e None word))
                      in if normalized \<notin> easyWordSet e \<and> syllableCount e word \<ge> syllableThreshold
                         then Set_add word diffWordsSet
                         else diffWordsSet))
               textList []))"

section \<open>Formula engine\<close>

definition fleschReadingEase :: "env \<Rightarrow> jstring \<Rightarrow> jsnum" where
  "fleschReadingEase e t =
     (let sentenceLength = averageSentenceLength t;
          syllablesPerWord = averageSyllablePerWord e t;
          flesch = jsub (jsub (Fin 206.835) (jmul (Fin 1.015) sentenceLength))
                        (jmul (Fin 84.6) syllablesPerWord)
      in legacyRound flesch 2)"

definition fleschReadingEaseToGrade :: "jsnum \<Rightarrow> jsnum" where
  "fleschReadingEaseToGrade score =
     (if jlt score (Fin 100) \<and> jge score (Fin 90) then Fin 5
      else if jlt score (Fin 90) \<and> jge score (Fin 80) then Fin 6
      else if jlt score (Fin 80) \<and> jge score (Fin 70) then Fin 7
      else if jlt score (Fin 70) \<and> jge score (Fin 60) then Fin 8.5
      else if jlt score (Fin 60) \<and> jge score (Fin 50) then Fin 11
      else if jlt score (Fin 50) \<and> jge score (Fin 40) then Fin 13
      else if jlt score (Fin 40) \<and> jge score (Fin 30) then Fin 15
      else Fin 16)"

definition fleschKincaidGrade :: "env \<Rightarrow> jstring \<Rightarrow> jsnum" where
  "fleschKincaidGrade e t =
     (let sentenceLength = averageSentenceLength t;
          syllablePerWord = averageSyllablePerWord e t;
          flesch = jsub (jadd (jmul (Fin 0.39) sentenceLength) (jmul (Fin 11.8) syllablePerWord))
                        (Fin 15.59)
      in legacyRound flesch 1)"

definition polySyllableCount :: "env \<Rightarrow> jstring \<Rightarrow> nat" where
  "polySyllableCount e t =
     fold (\<lambda>word count. if syllableCount e word \<ge> 3 then count + 1 else count) (split_js t) 0"

definition smogIndex :: "env \<Rightarrow> jstring \<Rightarrow> jsnum" where
  "smogIndex e t =
     (let sentences = sentenceCount t
      in if sentences \<ge> 3 then
           (let polySyllab = polySyllableCount e t;
                smog = jadd (jmul (Fin 1.043)
                                  (pow_half (jmul (Fin 30) (jdiv (num polySyllab) (num sentences)))))
                            (Fin 3.1291);
                returnVal = legacyRound smog 1
            in guardNaN returnVal)
         else Fin 0)"

definition colemanLiauIndex :: "jstring \<Rightarrow> jsnum" where
  "colemanLiauIndex t =
     (let letters = legacyRound (jmul (averageLetterPerWord t) (Fin 100)) 2;
          sentences = legacyRound (jmul (averageSentencePerWord t) (Fin 100)) 2;
          coleman = jsub (jsub (jmul (Fin 0.058) letters) (jmul (Fin 0.296) sentences)) (Fin 15.8)
      in legacyRound coleman 2)"

definition automatedReadabilityIndex :: "jstring \<Rightarrow> jsnum" where
  "automatedReadabilityIndex t =
     (let characters = charCount t True;
          words = lexiconCount t True;
          sentences = sentenceCount t;
          averageCharacterPerWord = jdiv (num characters) (num words);
          averageWordPerSentence = jdiv (num words) (num sentences);
          readability = jsub (jadd (jmul (Fin 4.71) (legacyRound averageCharacterPerWord 2))
                                   (jmul (Fin 0.5) (legacyRound averageWordPerSentence 2)))
                             (Fin 21.43);
          returnVal = legacyRound readability 1
      in guardNaN returnVal)"

fun join_js :: "jstring \<Rightarrow> jstring list \<Rightarrow> jstring" where
  \<comment> \<open>\<open>list.join(sep)\<close>\<close>
  "join_js sep [] = []"
| "join_js sep [x] = x"
| "join_js sep (x # y # r) = x @ sep @ join_js sep (y # r)"

definition linsearWriteFormula :: "env \<Rightarrow> jstring \<Rightarrow> jsnum" where
  "linsearWriteFormula e t0 =
     (let textList = take 100 (split_js t0);
          (easyWord, difficultWord) =
             fold (\<lambda>word (easyWord, difficultWord).
                     if syllableCount e word < 3 then (easyWord + 1, difficultWord)
                     else (easyWord, difficultWord + 1))
                  textList (0::nat, 0::nat);
          t = join_js (js '' '') textList;
          number = jdiv (num (easyWord * 1 + difficultWord * 3)) (num (sentenceCount t));
          returnVal0 = (if jle number (Fin 20) then jdiv (jsub number (Fin 2)) (Fin 2)
                        else jdiv number (Fin 2));
          returnVal = legacyRound returnVal0 1
      in guardNaN returnVal)"

definition daleChallReadabilityScore :: "env \<Rightarrow> jstring \<Rightarrow> jsnum" where
  "daleChallReadabilityScore e t =
     (let wordCount = num (lexiconCount t True);
          count = jsub wordCount (num (difficultWords e t 2));
          per = jmul (jdiv count wordCount) (Fin 100)
      in if isNaN per then Fin 0
         else
           (let difficultWords = jsub (Fin 100) per;
                score0 = jadd (jmul (Fin 0.1579) difficultWords)
                              (jmul (Fin 0.0496) (averageSentenceLength t));
                score = (if jgt difficultWords (Fin 5) then jadd score0 (Fin 3.6365) else score0)
            in legacyRound score 2))"

definition daleChallToGrade :: "jsnum \<Rightarrow> jsnum" where
  "daleChallToGrade score =
     (if jle score (Fin 4.9) then Fin 4
      else if jlt score (Fin 5.9) then Fin 5
      else if jlt score (Fin 6.9) then Fin 7
      else if jlt score (Fin 7.9) then Fin 9
      else if jlt score (Fin 8.9) then Fin 11
      else if jlt score (Fin 9.9) then Fin 13
      else Fin 16)"

definition gunningFog :: "env \<Rightarrow> jstring \<Rightarrow> jsnum" where
  "gunningFog e t =
     (let perDiffWords = jmul (jdiv (num (difficultWords e t 3)) (num (lexiconCount t True)))
                              (Fin 100);
          grade = jmul (Fin 0.4) (jadd (averageSentenceLength t) perDiffWords);
          returnVal = legacyRound grade 2
      in guardNaN returnVal)"



section \<open>Aggregator\<close>

datatype error = TypeError

definition reduce_js :: "('a \<Rightarrow> 'a \<Rightarrow> 'a) \<Rightarrow> 'a list \<Rightarrow> error + 'a" where
  \<comment> \<open>\<open>array.reduce(f)\<close> without an initial value: the first element starts the fold, and an
      empty array raises a \<open>TypeError\<close>\<close>
  "reduce_js f xs = (case xs of [] \<Rightarrow> Inl TypeError | x # r \<Rightarrow> Inr (fold (\<lambda>y acc. f acc y) r x))"

definition distinctValues :: "jsnum list \<Rightarrow> jsnum list" where
  \<comment> \<open>\<open>[...new Set(grade)]\<close>: every value once, in the order of its first occurrence; a
      \<open>Set\<close> holds \<open>NaN\<close> at most once\<close>
  "distinctValues grade = fold Set_add grade []"

definition votes :: "jsnum list \<Rightarrow> jsnum \<Rightarrow> nat" where
  \<comment> \<open>\<open>grade.filter(y => y === x).length\<close>\<close>
  "votes grade x = length (filter (\<lambda>y. strictEq y x) grade)"

definition textStandardGrades :: "env \<Rightarrow> jstring \<Rightarrow> jsnum list" where
  \<comment> \<open>the array \<open>grade\<close> of \<open>textStandard\<close> after its last \<open>push\<close>\<close>
  "textStandardGrades e t =
     [ Math_floor (legacyRound (fleschKincaidGrade e t) 0),
       Math_floor (Math_ceil (fleschKincaidGrade e t)),
       fleschReadingEaseToGrade (fleschReadingEase e t),
       Math_floor (legacyRound (smogIndex e t) 0),
       Math_floor (Math_ceil (smogIndex e t)),
       Math_floor (legacyRound (colemanLiauIndex t) 0),
       Math_floor (Math_ceil (colemanLiauIndex t)),
       Math_floor (legacyRound (automatedReadabilityIndex t) 0),
       Math_floor (Math_ceil (automatedReadabilityIndex t)),
       Math_floor (legacyRound (daleChallToGrade (daleChallReadabilityScore e t)) 0),
       Math_floor (Math_ceil (daleChallToGrade (daleChallReadabilityScore e t))),
       Math_floor (legacyRound (linsearWriteFormula e t) 0),
       Math_floor (Math_ceil (linsearWriteFormula e t)),
       Math_floor (legacyRound (gunningFog e t) 0),
       Math_floor (Math_ceil (gunningFog e t)) ]"

definition finalGrade :: "jsnum list \<Rightarrow> error + (jsnum \<times> nat)" where
  "finalGrade grade =
     (let counterMap = map (\<lambda>x. (x, votes grade x)) (distinctValues grade)
      in reduce_js (\<lambda>x y. if snd y \<ge> snd x then y else x) counterMap)"

datatype textStandardResult =
    Score jsnum
  | GradeRange jsnum jstring jsnum jstring
    \<comment> \<open>the four interpolated parts of the template string: \<open>lowerScore\<close>, its suffix,
        \<open>upperScore\<close>, its suffix\<close>

definition textStandard :: "env \<Rightarrow> jstring \<Rightarrow> bool \<Rightarrow> error + textStandardResult" where
  "textStandard e t floatOutput =
     (case finalGrade (textStandardGrades e t) of
        Inl err \<Rightarrow> Inl err
      | Inr fg \<Rightarrow>
          (let score = fst fg
           in if floatOutput then Inr (Score score)
              else
                (let lowerScore = jsub (Math_floor score) (Fin 1);
                     upperScore = jadd lowerScore (Fin 1)
                 in Inr (GradeRange lowerScore (getGradeSuffix lowerScore)
                                    upperScore (getGradeSuffix upperScore)))))"






section \<open>A fixture for concrete runs\<close>

text \<open>
  Concrete runs need concrete collaborators. The fixture lowers ASCII capitals, leaves the
  word form alone, knows the easy words \<open>like\<close> and \<open>force\<close>, and estimates the syllables of a
  word as the number of its maximal runs of the vowels \<open>a e i o u y\<close>.
\<close>

definition asciiLower :: "jstring \<Rightarrow> jstring" where
  "asciiLower t = map (\<lambda>c. if 0x41 \<le> c \<and> c \<le> 0x5A then c + 0x20 else c) t"

definition isVowel :: "16 word \<Rightarrow> bool" where
  "isVowel c = (c \<in> set (js ''aeiouy''))"

definition vowelGroups :: "jstring \<Rightarrow> nat" where
  "vowelGroups t = length (filter (\<lambda>w. w \<noteq> []) (splitOn (\<lambda>c. \<not> isVowel c) t))"

definition fixture :: env where
  "fixture = \<lparr> syllable = vowelGroups,
               pluralize = (\<lambda>w. w),
               easyWords = [js ''like'', js ''force''],
               toLocaleLowerCase = (\<lambda>locale. asciiLower) \<rparr>"

section \<open>Properties of the tokenizer\<close>

lemma fold_count_filter:
  "fold (\<lambda>x n. if P x then n + 1 else n) xs (k::nat) = k + length (filter P xs)"
  by (induction xs arbitrary: k) auto

lemma length_minus_filter:
  "int (length xs) - int (length (filter P xs)) = int (length (filter (\<lambda>x. \<not> P x) xs))"
  using sum_length_filter_compl [of P xs] by linarith

text \<open>
  Claim C7. For every text, \<open>sentenceCount\<close> is at least 1: it is the number of pieces of
  the sentence split that have more than two words, or 1 when that number is 0. The empty
  text and a text whose pieces all have at most two words both give 1.
\<close>

theorem sentenceCount_floor_one:
  "1 \<le> sentenceCount t \<and>
   sentenceCount t = max 1 (length (filter (\<lambda>s. 2 < lexiconCount s True) (splitSentences t))) \<and>
   sentenceCount (js '''') = 1 \<and>
   sentenceCount (js ''Hi there. You too. Bye'') = 1"
proof -
  have eq: "sentenceCount t =
      max 1 (length (filter (\<lambda>s. 2 < lexiconCount s True) (splitSentences t)))"
    by (simp add: sentenceCount_def Let_def fold_count_filter length_minus_filter not_le max_def)
  have e1: "sentenceCount (js '''') = 1" by code_simp
  have e2: "sentenceCount (js ''Hi there. You too. Bye'') = 1" by code_simp
  from eq e1 e2 show ?thesis by simp
qed

text \<open>
  Claim C9. The comma is both a punctuation character and a word delimiter. With
  punctuation removed first, \<open>a,b\<close> becomes \<open>ab\<close> and counts as one word; without, the comma
  splits it into two.
\<close>

theorem lexiconCount_comma_collapse:
  "isPunctuation 0x2C \<and> isDelimiter 0x2C \<and>
   removePunctuation (js ''a,b'') = js ''ab'' \<and>
   lexiconCount (js ''a,b'') True = 1 \<and> lexiconCount (js ''a,b'') False = 2"
  by (simp add: isPunctuation_def isDelimiter_def removePunctuation_def lexiconCount_def js_def)

section \<open>Properties of the grade suffix\<close>

text \<open>
  Claim C8. \<open>getGradeSuffix\<close> floors its argument and answers \<open>st\<close>, \<open>nd\<close>, \<open>rd\<close> for the
  floored values 1, 2, 3 only, and \<open>th\<close> for every other integer, 21, 22 and 23 included.
\<close>

theorem getGradeSuffix_table:
  "getGradeSuffix g = getGradeSuffix (Math_floor g) \<and>
   getGradeSuffix (Fin (of_int k)) =
     (if k = 1 then js ''st'' else if k = 2 then js ''nd'' else if k = 3 then js ''rd''
      else js ''th'') \<and>
   getGradeSuffix (Fin 1) = js ''st'' \<and> getGradeSuffix (Fin 2) = js ''nd'' \<and>
   getGradeSuffix (Fin 3) = js ''rd'' \<and> getGradeSuffix (Fin 4) = js ''th'' \<and>
   getGradeSuffix (Fin 21) = js ''th'' \<and> getGradeSuffix (Fin 22) = js ''th'' \<and>
   getGradeSuffix (Fin 23) = js ''th''"
proof -
  have fl: "Math_floor (Math_floor g) = Math_floor g" by (cases g) simp_all
  have a: "getGradeSuffix g = getGradeSuffix (Math_floor g)"
    by (simp add: getGradeSuffix_def fl)
  have b: "getGradeSuffix (Fin (of_int k)) =
     (if k = 1 then js ''st'' else if k = 2 then js ''nd'' else if k = 3 then js ''rd''
      else js ''th'')"
    by (simp add: getGradeSuffix_def js_def)
  have c: "getGradeSuffix (Fin 1) = js ''st''" "getGradeSuffix (Fin 2) = js ''nd''"
    "getGradeSuffix (Fin 3) = js ''rd''" "getGradeSuffix (Fin 4) = js ''th''"
    "getGradeSuffix (Fin 21) = js ''th''" "getGradeSuffix (Fin 22) = js ''th''"
    "getGradeSuffix (Fin 23) = js ''th''"
    by (simp_all add: getGradeSuffix_def js_def)
  from a b c show ?thesis by simp
qed

section \<open>Properties of legacy rounding\<close>



lemma copySign_zero: "copySign x (Fin 0) = NaN"
  by (cases x) (simp_all add: copySign_def inf_of_sign_def)



lemma legacyRound_zero: "legacyRound (Fin 0) n = NaN"
  by (simp add: legacyRound_def copySign_zero)

lemma legacyRound_NaN: "legacyRound NaN n = NaN"
  by (simp add: legacyRound_def)

lemma legacyRound_PInf: "legacyRound PInf n = NaN"
  by (simp add: legacyRound_def copySign_def inf_of_sign_def)

lemma legacyRound_NInf: "legacyRound NInf n = NaN"
  by (simp add: legacyRound_def copySign_def inf_of_sign_def)


lemma sentenceCount_pos: "0 < sentenceCount t"
  by (simp add: sentenceCount_def Let_def)

lemma legacyRound_div_no_words: "legacyRound (jdiv (num a) (num 0)) n = NaN"
  by (cases "a = 0")
     (simp_all add: num_def inf_of_sign_def legacyRound_NaN legacyRound_PInf)

lemma legacyRound_zero_div: "0 < b \<Longrightarrow> legacyRound (jdiv (num 0) (num b)) n = NaN"
  by (simp add: num_def legacyRound_zero)





text \<open>
  Claim C10. \<open>legacyRound 0 n\<close> is \<open>NaN\<close> for every precision \<open>n\<close>, because \<open>copySign 0.5 0\<close>
  divides zero by zero. On a text without words each of the five averages still
  returns \<open>0\<close>: the rounded ratio is \<open>NaN\<close>, and the guard behind it turns that into \<open>0\<close>.
\<close>

theorem legacyRound_zero_NaN:
  "legacyRound (Fin 0) n = NaN \<and>
   jdiv (Fin 0) (jabs (Fin 0)) = NaN \<and>
   copySign (Fin 0.5) (Fin 0) = NaN \<and>
   (lexiconCount t True = 0 \<longrightarrow>
      legacyRound (jdiv (num (lexiconCount t True)) (num (sentenceCount t))) 1 = NaN \<and>
      averageSentenceLength t = Fin 0 \<and>
      legacyRound (jdiv (num (syllableCount e t)) (num (lexiconCount t True))) 1 = NaN \<and>
      averageSyllablePerWord e t = Fin 0 \<and>
      legacyRound (jdiv (num (charCount t True)) (num (lexiconCount t True))) 2 = NaN \<and>
      averageCharacterPerWord t = Fin 0 \<and>
      legacyRound (jdiv (num (letterCount t True)) (num (lexiconCount t True))) 2 = NaN \<and>
      averageLetterPerWord t = Fin 0 \<and>
      legacyRound (jdiv (num (sentenceCount t)) (num (lexiconCount t True))) 2 = NaN \<and>
      averageSentencePerWord t = Fin 0)"
proof -
  have a: "legacyRound (Fin 0) n = NaN" by (rule legacyRound_zero)
  have b: "jdiv (Fin 0) (jabs (Fin 0)) = NaN" by (simp add: inf_of_sign_def)
  have c: "copySign (Fin 0.5) (Fin 0) = NaN" by (rule copySign_zero)
  have d: "legacyRound (jdiv (num (lexiconCount t True)) (num (sentenceCount t))) 1 = NaN"
    if "lexiconCount t True = 0"
    using that sentenceCount_pos [of t] by (simp add: legacyRound_zero_div)
  have e: "legacyRound (jdiv (num x) (num (lexiconCount t True))) m = NaN"
    if "lexiconCount t True = 0" for x m
    using that by (simp add: legacyRound_div_no_words)
  show ?thesis
    using a b c d e
    by (simp add: averageSentenceLength_def averageSyllablePerWord_def
        averageCharacterPerWord_def averageLetterPerWord_def averageSentencePerWord_def
        guardNaN_def Let_def)
qed

theorem legacyRound_zero_NaN_witness:
  "lexiconCount (js '''') True = 0 \<and> legacyRound (Fin 0) 1 = NaN \<and>
   averageSentenceLength (js '''') = Fin 0 \<and>
   averageSyllablePerWord fixture (js '''') = Fin 0 \<and>
   averageCharacterPerWord (js '''') = Fin 0 \<and>
   averageLetterPerWord (js '''') = Fin 0 \<and>
   averageSentencePerWord (js '''') = Fin 0"
proof -
  have h: "lexiconCount (js '''') True = 0" by code_simp
  show ?thesis
    using h legacyRound_zero_NaN [of 1 "js ''''" fixture] by simp
qed

section \<open>Properties of the normalizer and of the difficult-word count\<close>

lemma endsWith_append: "endsWith (s @ suf) suf"
  by (simp add: endsWith_def)

lemma dropLast_append: "dropLast (length suf) (s @ suf) = s"
  by (simp add: dropLast_def)

lemma dropLast_ed: "dropLast 2 (s @ js ''ed'') = s" "dropLast 1 (s @ js ''ed'') = s @ js ''e''"
  by (simp_all add: dropLast_def js_def)

lemma dropLast_ing: "dropLast 3 (s @ js ''ing'') = s"
  by (simp add: dropLast_def js_def)

lemma ing_not_ed: "\<not> endsWith (s @ js ''ing'') (js ''ed'')"
  by (simp add: endsWith_def js_def)

text \<open>
  Claim C6, as amended. \<open>presentTense\<close> returns a word of fewer than six code units
  unchanged, so \<open>liked\<close> stays \<open>liked\<close> whatever the dictionary holds. For a longer word
  ending in \<open>ed\<close> it returns the word without its last letter when the dictionary has that
  form, otherwise the word without \<open>ed\<close>. For a longer word ending in \<open>ing\<close> it returns the
  stem with \<open>e\<close> appended when the dictionary has that form, otherwise the stem alone; so
  \<open>eating\<close> gives \<open>eat\<close> unless \<open>eate\<close> is a dictionary word. A word with neither ending is
  returned unchanged.
\<close>

theorem presentTense_rules:
  "(length w < 6 \<longrightarrow> presentTense e w = w) \<and>
   (4 \<le> length s \<longrightarrow>
      presentTense e (s @ js ''ed'') =
        (if s @ js ''e'' \<in> easyWordSet e then s @ js ''e'' else s)) \<and>
   (3 \<le> length s \<longrightarrow>
      presentTense e (s @ js ''ing'') =
        (if s @ js ''e'' \<in> easyWordSet e then s @ js ''e'' else s)) \<and>
   (\<not> endsWith w (js ''ed'') \<and> \<not> endsWith w (js ''ing'') \<longrightarrow> presentTense e w = w) \<and>
   presentTense e (js ''liked'') = js ''liked'' \<and>
   (js ''eate'' \<notin> easyWordSet e \<longrightarrow> presentTense e (js ''eating'') = js ''eat'')"
proof -
  have short: "presentTense e w = w" if "length w < 6" for w
    using that by (simp add: presentTense_def)
  have ed: "presentTense e (s @ js ''ed'') =
        (if s @ js ''e'' \<in> easyWordSet e then s @ js ''e'' else s)" if "4 \<le> length s"
  proof -
    have "\<not> length (s @ js ''ed'') < 6" using that by (simp add: js_def)
    then show ?thesis
      by (simp only: presentTense_def endsWith_append dropLast_ed if_True if_False)
  qed
  have ing: "presentTense e (s @ js ''ing'') =
        (if s @ js ''e'' \<in> easyWordSet e then s @ js ''e'' else s)" if "3 \<le> length s" for s
  proof -
    have "\<not> length (s @ js ''ing'') < 6" using that by (simp add: js_def)
    then show ?thesis
      by (simp only: presentTense_def endsWith_append dropLast_ing ing_not_ed Let_def
          if_True if_False)
  qed
  have other: "presentTense e w = w"
    if "\<not> endsWith w (js ''ed'') \<and> \<not> endsWith w (js ''ing'')"
    using that by (simp add: presentTense_def)
  have liked: "presentTense e (js ''liked'') = js ''liked''"
    by (rule short) (simp add: js_def)
  have "js ''eating'' = js ''eat'' @ js ''ing''" by (simp add: js_def)
  moreover have "js ''eat'' @ js ''e'' = js ''eate''" by (simp add: js_def)
  moreover have "3 \<le> length (js ''eat'')" by (simp add: js_def)
  ultimately have eating: "presentTense e (js ''eating'') = js ''eat''"
    if "js ''eate'' \<notin> easyWordSet e"
    using that ing [of "js ''eat''"] by simp
  from short ed ing other liked eating show ?thesis by blast
qed

theorem presentTense_rules_witness:
  "length (js ''liked'') < 6 \<and> presentTense fixture (js ''liked'') = js ''liked'' \<and>
   4 \<le> length (js ''walk'') \<and> presentTense fixture (js ''walk'' @ js ''ed'') = js ''walk'' \<and>
   3 \<le> length (js ''forc'') \<and> presentTense fixture (js ''forc'' @ js ''ing'') = js ''force'' \<and>
   \<not> endsWith (js ''readable'') (js ''ed'') \<and>
   \<not> endsWith (js ''readable'') (js ''ing'') \<and>
   presentTense fixture (js ''readable'') = js ''readable'' \<and>
   js ''eate'' \<notin> easyWordSet fixture \<and> presentTense fixture (js ''eating'') = js ''eat''"
proof -
  have a: "length (js ''liked'') < 6" by (simp add: js_def)
  have b: "4 \<le> length (js ''walk'')" by (simp add: js_def)
  have c: "3 \<le> length (js ''forc'')" by (simp add: js_def)
  have d: "\<not> endsWith (js ''readable'') (js ''ed'') \<and>
           \<not> endsWith (js ''readable'') (js ''ing'')"
    by (simp add: endsWith_def js_def)
  have e: "js ''eate'' \<notin> easyWordSet fixture" by (simp add: easyWordSet_def fixture_def js_def)
  have f: "js ''walk'' @ js ''e'' \<notin> easyWordSet fixture"
    by (simp add: easyWordSet_def fixture_def js_def)
  have g: "js ''forc'' @ js ''e'' \<in> easyWordSet fixture"
    by (simp add: easyWordSet_def fixture_def js_def)
  have g': "js ''forc'' @ js ''e'' = js ''force''" by (simp add: js_def)
  note r = presentTense_rules [of _ fixture]
  have 1: "presentTense fixture (js ''liked'') = js ''liked''" using r by blast
  have 2: "presentTense fixture (js ''walk'' @ js ''ed'') = js ''walk''"
    using r [of "js ''liked''" "js ''walk''"] b f by simp
  have 3: "presentTense fixture (js ''forc'' @ js ''ing'') = js ''force''"
    using r [of "js ''liked''" "js ''forc''"] c g g' by simp
  have 4: "presentTense fixture (js ''readable'') = js ''readable''"
    using r [of "js ''readable''" "js ''forc''"] d by blast
  have 5: "presentTense fixture (js ''eating'') = js ''eat''"
    using r [of "js ''liked''" "js ''forc''"] e by blast
  from a b c d e 1 2 3 4 5 show ?thesis by blast
qed

text \<open>
  The claim as stated fails: with \<open>like\<close> in the dictionary, \<open>liked\<close> has five code units
  and comes back unchanged, never reaching the \<open>ed\<close> branch; and \<open>running\<close> loses \<open>ing\<close> only,
  which leaves \<open>runn\<close>.
\<close>

theorem presentTense_liked_counterexample:
  "js ''like'' \<in> easyWordSet fixture \<and>
   presentTense fixture (js ''liked'') = js ''liked'' \<and>
   presentTense fixture (js ''liked'') \<noteq> js ''like'' \<and>
   presentTense fixture (js ''running'') = js ''runn''"
  by (simp add: presentTense_def easyWordSet_def fixture_def js_def endsWith_def dropLast_def)

lemma set_Set_add: "set (Set_add x S) = insert x (set S)"
  by (auto simp: Set_add_def)

lemma distinct_Set_add: "distinct S \<Longrightarrow> distinct (Set_add x S)"
  by (simp add: Set_add_def)

lemma set_fold_Set_add_if:
  "set (fold (\<lambda>w S. if Q w then Set_add w S else S) ws S0) = set S0 \<union> {w \<in> set ws. Q w}"
  by (induction ws arbitrary: S0) (auto simp: set_Set_add)

lemma distinct_fold_Set_add_if:
  "distinct S0 \<Longrightarrow> distinct (fold (\<lambda>w S. if Q w then Set_add w S else S) ws S0)"
  by (induction ws arbitrary: S0) (auto simp: distinct_Set_add)

lemma length_fold_Set_add_if:
  "length (fold (\<lambda>w S. if Q w then Set_add w S else S) ws []) = card {w \<in> set ws. Q w}"
proof -
  have "distinct (fold (\<lambda>w S. if Q w then Set_add w S else S) ws [])"
    by (rule distinct_fold_Set_add_if) simp
  then have "length (fold (\<lambda>w S. if Q w then Set_add w S else S) ws [])
      = card (set (fold (\<lambda>w S. if Q w then Set_add w S else S) ws []))"
    by (simp add: distinct_card)
  then show ?thesis by (simp add: set_fold_Set_add_if)
qed

lemma difficultWords_card:
  "difficultWords e x t =
     (case matchWords x of
        None \<Rightarrow> 0
      | Some ws \<Rightarrow>
          card {w \<in> set ws.
                presentTense e (pluralize e (toLocaleLowerCase e None w)) \<notin> easyWordSet e \<and>
                t \<le> syllableCount e w})"
  by (simp add: difficultWords_def Let_def length_fold_Set_add_if split: option.split)

text \<open>
  Claim C4, as amended. For a fixed text the number of difficult words does not grow
  with the syllable threshold: a word counts when it has at least that many syllables,
  so a higher threshold can only drop words.
\<close>

theorem difficultWords_antitone:
  "s \<le> t \<Longrightarrow> difficultWords e x t \<le> difficultWords e x s"
proof (cases "matchWords x")
  case None
  then show ?thesis by (simp add: difficultWords_card)
next
  case (Some ws)
  assume st: "s \<le> t"
  let ?D = "\<lambda>k. {w \<in> set ws.
                presentTense e (pluralize e (toLocaleLowerCase e None w)) \<notin> easyWordSet e \<and>
                k \<le> syllableCount e w}"
  have "?D t \<subseteq> ?D s" using st by auto
  moreover have "finite (?D s)" by simp
  ultimately have "card (?D t) \<le> card (?D s)" by (rule card_mono [rotated])
  with Some show ?thesis by (simp add: difficultWords_card)
qed

lemma difficultWords_example:
  "difficultWords fixture (js ''hello beautiful world'') 2 = 2"
  "difficultWords fixture (js ''hello beautiful world'') 3 = 1"
  "difficultWords fixture (js ''hello beautiful world'') 4 = 0"
  by code_simp+

theorem difficultWords_antitone_witness:
  "(2::nat) \<le> 3 \<and>
   difficultWords fixture (js ''hello beautiful world'') 3
     \<le> difficultWords fixture (js ''hello beautiful world'') 2"
  using difficultWords_antitone [of 2 3 fixture "js ''hello beautiful world''"] by simp

text \<open>
  The claim as stated (the count never shrinks from threshold 2 to 3 to 4) fails: on
  \<open>hello beautiful world\<close> the counts are 2, 1 and 0.
\<close>

theorem difficultWords_nondecreasing_counterexample:
  "difficultWords fixture (js ''hello beautiful world'') 2 = 2 \<and>
   difficultWords fixture (js ''hello beautiful world'') 3 = 1 \<and>
   difficultWords fixture (js ''hello beautiful world'') 4 = 0 \<and>
   \<not> difficultWords fixture (js ''hello beautiful world'') 2
       \<le> difficultWords fixture (js ''hello beautiful world'') 3"
  by (simp add: difficultWords_example)

section \<open>The formulas on a text without words\<close>















section \<open>Properties of the aggregator\<close>

subsection \<open>The median\<close>














lemma dog_counts:
  "lexiconCount (js ''A dog ran home'') True = 4"
  "sentenceCount (js ''A dog ran home'') = 1"
  by code_simp+

lemma dog_scores:
  "fleschKincaidGrade fixture (js ''A dog ran home'') = Fin 1.3"
  "fleschReadingEase fixture (js ''A dog ran home'') = Fin 92.8"
  "colemanLiauIndex (js ''A dog ran home'') = Fin (- 7.26)"
  "automatedReadabilityIndex (js ''A dog ran home'') = Fin (- 6.6)"
  "daleChallReadabilityScore fixture (js ''A dog ran home'') = Fin 7.78"
  "linsearWriteFormula fixture (js ''A dog ran home'') = Fin 1"
  "gunningFog fixture (js ''A dog ran home'') = Fin 1.6"
  by code_simp+

lemma dog_smog: "smogIndex fixture (js ''A dog ran home'') = Fin 0"
  by (simp add: smogIndex_def dog_counts)




subsection \<open>The consensus grade\<close>

lemma fold_keeps_last_maximum:
  fixes m :: "'a \<Rightarrow> nat"
  assumes step: "\<And>y acc. step y acc = (if m acc \<le> m y then y else acc)"
  shows "\<exists>i < length (a # r).
      (a # r) ! i = fold step r a \<and>
      (\<forall>j < length (a # r). m ((a # r) ! j) \<le> m (fold step r a)) \<and>
      (\<forall>j. i < j \<and> j < length (a # r) \<longrightarrow> m ((a # r) ! j) < m (fold step r a))"
proof (induction r rule: rev_induct)
  case Nil
  show ?case by simp
next
  case (snoc y r)
  define xs where "xs = a # r"
  define b where "b = fold step r a"
  from snoc obtain i where i: "i < length xs" and ib: "xs ! i = b"
    and le: "\<And>j. j < length xs \<Longrightarrow> m (xs ! j) \<le> m b"
    and lt: "\<And>j. i < j \<Longrightarrow> j < length xs \<Longrightarrow> m (xs ! j) < m b"
    unfolding xs_def b_def by blast
  have app: "a # (r @ [y]) = xs @ [y]" by (simp add: xs_def)
  have f: "fold step (r @ [y]) a = (if m b \<le> m y then y else b)"
    by (simp add: b_def step)
  have nth_old: "(xs @ [y]) ! j = xs ! j" if "j < length xs" for j
    using that by (simp add: nth_append)
  have nth_new: "(xs @ [y]) ! length xs = y" by simp
  have split: "j < length xs \<or> j = length xs" if "j < length (xs @ [y])" for j
    using that by auto
  show ?case
  proof (cases "m b \<le> m y")
    case True
    have b': "fold step (r @ [y]) a = y" unfolding f using True by simp
    have 2: "m ((xs @ [y]) ! j) \<le> m y" if "j < length (xs @ [y])" for j
    proof -
      from split [OF that] show ?thesis
      proof
        assume j: "j < length xs"
        then have "m (xs ! j) \<le> m b" by (rule le)
        with True j show ?thesis by (simp add: nth_old)
      next
        assume "j = length xs"
        then show ?thesis by (simp add: nth_new)
      qed
    qed
    have 3: "\<not> (length xs < j \<and> j < length (xs @ [y]))" for j by simp
    have 0: "length xs < length (xs @ [y])" by simp
    show ?thesis
      unfolding app b'
      using 0 nth_new 2 3 by blast
  next
    case False
    have b': "fold step (r @ [y]) a = b" unfolding f using False by simp
    have 1: "(xs @ [y]) ! i = b" using i ib by (simp add: nth_old)
    have 2: "m ((xs @ [y]) ! j) \<le> m b" if "j < length (xs @ [y])" for j
    proof -
      from split [OF that] show ?thesis
      proof
        assume j: "j < length xs"
        then show ?thesis using le [OF j] by (simp add: nth_old)
      next
        assume "j = length xs"
        then show ?thesis using False by (simp add: nth_new)
      qed
    qed
    have 3: "m ((xs @ [y]) ! j) < m b" if "i < j" "j < length (xs @ [y])" for j
    proof -
      from split [OF that(2)] show ?thesis
      proof
        assume j: "j < length xs"
        then show ?thesis using lt [OF that(1) j] by (simp add: nth_old)
      next
        assume "j = length xs"
        then show ?thesis using False by (simp add: nth_new)
      qed
    qed
    have 0: "i < length (xs @ [y])" using i by simp
    show ?thesis
      unfolding app b'
      using 0 1 2 3 by blast
  qed
qed

lemma set_fold_Set_add: "set (fold Set_add g S) = set S \<union> set g"
  by (induction g arbitrary: S) (auto simp: set_Set_add)

lemma distinct_fold_Set_add: "distinct S \<Longrightarrow> distinct (fold Set_add g S)"
  by (induction g arbitrary: S) (auto simp: distinct_Set_add)

lemma set_distinctValues: "set (distinctValues g) = set g"
  by (simp add: distinctValues_def set_fold_Set_add)

lemma distinct_distinctValues: "distinct (distinctValues g)"
  by (simp add: distinctValues_def distinct_fold_Set_add)

lemma votes_count_list: "votes g v = (if isNaN v then 0 else count_list g v)"
proof (cases "isNaN v")
  case True
  then have "filter (\<lambda>y. strictEq y v) g = []" by (auto simp: strictEq_def filter_empty_conv)
  with True show ?thesis by (simp add: votes_def)
next
  case False
  then have "filter (\<lambda>y. strictEq y v) g = filter ((=) v) g"
    by (intro filter_cong) (auto simp: strictEq_def)
  with False show ?thesis by (simp add: votes_def count_list_eq_length_filter)
qed

lemma finalGrade_mode:
  assumes "g \<noteq> []"
  shows "\<exists>w i. finalGrade g = Inr (w, votes g w) \<and>
           i < length (distinctValues g) \<and> distinctValues g ! i = w \<and>
           (\<forall>v \<in> set g. votes g v \<le> votes g w) \<and>
           (\<forall>j. i < j \<and> j < length (distinctValues g) \<longrightarrow>
                votes g (distinctValues g ! j) < votes g w)"
proof -
  let ?dv = "distinctValues g"
  let ?cm = "map (\<lambda>x. (x, votes g x)) ?dv"
  let ?step = "\<lambda>y acc. if snd acc \<le> snd y then y else (acc :: jsnum \<times> nat)"
  from assms have "set ?dv \<noteq> {}" by (simp add: set_distinctValues)
  then obtain a r where dv: "?dv = a # r" by (cases ?dv) auto
  let ?a = "(a, votes g a)"
  let ?r = "map (\<lambda>x. (x, votes g x)) r"
  have cm: "?cm = ?a # ?r" by (simp add: dv)
  let ?b = "fold ?step ?r ?a"
  have fg: "finalGrade g = Inr ?b"
    by (simp add: finalGrade_def Let_def reduce_js_def dv)
  have "\<exists>i < length (?a # ?r). (?a # ?r) ! i = ?b \<and>
      (\<forall>j < length (?a # ?r). snd ((?a # ?r) ! j) \<le> snd ?b) \<and>
      (\<forall>j. i < j \<and> j < length (?a # ?r) \<longrightarrow> snd ((?a # ?r) ! j) < snd ?b)"
    by (rule fold_keeps_last_maximum) simp
  then obtain i where i: "i < length (?a # ?r)" "(?a # ?r) ! i = ?b"
    and le: "\<forall>j < length (?a # ?r). snd ((?a # ?r) ! j) \<le> snd ?b"
    and lt: "\<forall>j. i < j \<and> j < length (?a # ?r) \<longrightarrow> snd ((?a # ?r) ! j) < snd ?b"
    by blast
  have len: "length (?a # ?r) = length ?dv" by (simp add: dv)
  have nth: "(?a # ?r) ! j = (?dv ! j, votes g (?dv ! j))" if "j < length ?dv" for j
  proof -
    have "?cm ! j = (?dv ! j, votes g (?dv ! j))" using that by (rule nth_map)
    then show ?thesis by (simp only: cm)
  qed
  let ?w = "?dv ! i"
  have il: "i < length ?dv" using i len by simp
  have b: "?b = (?w, votes g ?w)" using i nth [OF il] by simp
  have 1: "finalGrade g = Inr (?w, votes g ?w)" using fg b by simp
  have 2: "\<forall>v \<in> set g. votes g v \<le> votes g ?w"
  proof
    fix v assume "v \<in> set g"
    then have "v \<in> set ?dv" by (simp add: set_distinctValues)
    then obtain j where j: "j < length ?dv" "?dv ! j = v" by (auto simp: in_set_conv_nth)
    from le j(1) len have "snd ((?a # ?r) ! j) \<le> snd ?b" by simp
    with nth [OF j(1)] j(2) b show "votes g v \<le> votes g ?w" by simp
  qed
  have 3: "\<forall>j. i < j \<and> j < length ?dv \<longrightarrow> votes g (?dv ! j) < votes g ?w"
  proof (intro allI impI)
    fix j assume j: "i < j \<and> j < length ?dv"
    with lt len have "snd ((?a # ?r) ! j) < snd ?b" by simp
    with nth [of j] j b show "votes g (?dv ! j) < votes g ?w" by simp
  qed
  from 1 il 2 3 show ?thesis by blast
qed

text \<open>
  Claim C2, as amended. For every text, \<open>textStandard\<close> collects exactly 15 votes: the
  floored \<open>legacyRound\<close> and the floored ceiling of each of the seven scores
  (Flesch-Kincaid, SMOG, Coleman-Liau, ARI, Dale-Chall grade, Linsear Write, Gunning Fog)
  and the single Flesch-reading-ease grade. The votes of a value are the entries strictly
  equal to it: its number of occurrences, except that \<open>NaN\<close> has no votes however often it
  occurs. The reduction never fails, and the score it selects is a value of the
  distinct-value list with the highest number of votes, every value behind it in that
  list having strictly fewer: among tied values the last one in insertion order wins.
\<close>

theorem textStandard_mode:
  "length (textStandardGrades e t) = 15 \<and>
   mset (textStandardGrades e t) =
     mset (concat (map (\<lambda>s. [Math_floor (legacyRound s 0), Math_floor (Math_ceil s)])
             [fleschKincaidGrade e t, smogIndex e t, colemanLiauIndex t,
              automatedReadabilityIndex t, daleChallToGrade (daleChallReadabilityScore e t),
              linsearWriteFormula e t, gunningFog e t]))
     + {# fleschReadingEaseToGrade (fleschReadingEase e t) #} \<and>
   distinct (distinctValues (textStandardGrades e t)) \<and>
   set (distinctValues (textStandardGrades e t)) = set (textStandardGrades e t) \<and>
   votes (textStandardGrades e t) v =
     (if isNaN v then 0 else count_list (textStandardGrades e t) v) \<and>
   (\<exists>w i. textStandard e t True = Inr (Score w) \<and>
          i < length (distinctValues (textStandardGrades e t)) \<and>
          distinctValues (textStandardGrades e t) ! i = w \<and>
          (\<forall>v \<in> set (textStandardGrades e t).
              votes (textStandardGrades e t) v \<le> votes (textStandardGrades e t) w) \<and>
          (\<forall>j. i < j \<and> j < length (distinctValues (textStandardGrades e t)) \<longrightarrow>
              votes (textStandardGrades e t) (distinctValues (textStandardGrades e t) ! j)
                < votes (textStandardGrades e t) w))"
proof -
  let ?g = "textStandardGrades e t"
  have len: "length ?g = 15" by (simp add: textStandardGrades_def)
  have ms: "mset ?g =
     mset (concat (map (\<lambda>s. [Math_floor (legacyRound s 0), Math_floor (Math_ceil s)])
             [fleschKincaidGrade e t, smogIndex e t, colemanLiauIndex t,
              automatedReadabilityIndex t, daleChallToGrade (daleChallReadabilityScore e t),
              linsearWriteFormula e t, gunningFog e t]))
     + {# fleschReadingEaseToGrade (fleschReadingEase e t) #}"
    by (simp add: textStandardGrades_def)
  from len have ne: "?g \<noteq> []" by auto
  from finalGrade_mode [OF ne] obtain w i where
    fg: "finalGrade ?g = Inr (w, votes ?g w)" and
    rest: "i < length (distinctValues ?g)" "distinctValues ?g ! i = w"
      "\<forall>v \<in> set ?g. votes ?g v \<le> votes ?g w"
      "\<forall>j. i < j \<and> j < length (distinctValues ?g) \<longrightarrow>
                votes ?g (distinctValues ?g ! j) < votes ?g w"
    by blast
  have ts: "textStandard e t True = Inr (Score w)"
    by (simp add: textStandard_def fg)
  from len ms ts rest distinct_distinctValues [of ?g] set_distinctValues [of ?g]
    votes_count_list [of ?g v]
  show ?thesis by blast
qed

lemma dog_standard_grades:
  "textStandardGrades fixture (js ''A dog ran home'') =
     [Fin 1, Fin 2, Fin 5, NaN, Fin 0, Fin (- 8), Fin (- 7), Fin (- 8), Fin (- 6),
      Fin 9, Fin 9, Fin 1, Fin 1, Fin 2, Fin 2]"
  by (simp add: textStandardGrades_def dog_scores dog_smog fleschReadingEaseToGrade_def
      daleChallToGrade_def jge_def legacyRound_def copySign_def inf_of_sign_def)

lemma dog_distinct:
  "distinctValues [Fin 1, Fin 2, Fin 5, NaN, Fin 0, Fin (- 8), Fin (- 7), Fin (- 8), Fin (- 6),
      Fin 9, Fin 9, Fin 1, Fin 1, Fin 2, Fin 2] =
     [Fin 1, Fin 2, Fin 5, NaN, Fin 0, Fin (- 8), Fin (- 7), Fin (- 6), Fin 9]"
  by (simp add: distinctValues_def Set_add_def)

lemma dog_votes:
  "map (votes [Fin 1, Fin 2, Fin 5, NaN, Fin 0, Fin (- 8), Fin (- 7), Fin (- 8), Fin (- 6),
      Fin 9, Fin 9, Fin 1, Fin 1, Fin 2, Fin 2])
     [Fin 1, Fin 2, Fin 5, NaN, Fin 0, Fin (- 8), Fin (- 7), Fin (- 6), Fin 9] =
     [3, 3, 1, 0, 1, 2, 1, 1, 2]"
  by (simp add: votes_def strictEq_def)

lemma dog_finalGrade:
  "finalGrade [Fin 1, Fin 2, Fin 5, NaN, Fin 0, Fin (- 8), Fin (- 7), Fin (- 8), Fin (- 6),
      Fin 9, Fin 9, Fin 1, Fin 1, Fin 2, Fin 2] = Inr (Fin 2, 3)"
  using dog_votes by (simp add: finalGrade_def dog_distinct reduce_js_def)

theorem textStandard_mode_witness:
  "textStandardGrades fixture (js ''A dog ran home'') =
     [Fin 1, Fin 2, Fin 5, NaN, Fin 0, Fin (- 8), Fin (- 7), Fin (- 8), Fin (- 6),
      Fin 9, Fin 9, Fin 1, Fin 1, Fin 2, Fin 2] \<and>
   distinctValues (textStandardGrades fixture (js ''A dog ran home'')) =
     [Fin 1, Fin 2, Fin 5, NaN, Fin 0, Fin (- 8), Fin (- 7), Fin (- 6), Fin 9] \<and>
   map (votes (textStandardGrades fixture (js ''A dog ran home'')))
     (distinctValues (textStandardGrades fixture (js ''A dog ran home''))) =
     [3, 3, 1, 0, 1, 2, 1, 1, 2] \<and>
   textStandard fixture (js ''A dog ran home'') True = Inr (Score (Fin 2)) \<and>
   textStandard fixture (js ''A dog ran home'') False =
     Inr (GradeRange (Fin 1) (js ''st'') (Fin 2) (js ''nd'')) \<and>
   Fin 1 \<in> set (textStandardGrades fixture (js ''A dog ran home'')) \<and>
   votes (textStandardGrades fixture (js ''A dog ran home'')) (Fin 1)
     \<le> votes (textStandardGrades fixture (js ''A dog ran home'')) (Fin 2)"
proof -
  let ?g = "textStandardGrades fixture (js ''A dog ran home'')"
  have a: "distinctValues ?g = [Fin 1, Fin 2, Fin 5, NaN, Fin 0, Fin (- 8), Fin (- 7), Fin (- 6), Fin 9]"
    by (simp only: dog_standard_grades dog_distinct)
  have b: "map (votes ?g) (distinctValues ?g) = [3, 3, 1, 0, 1, 2, 1, 1, 2]"
    by (simp only: dog_standard_grades dog_distinct dog_votes)
  have fg: "finalGrade ?g = Inr (Fin 2, 3)"
    by (simp only: dog_standard_grades dog_finalGrade)
  have c: "textStandard fixture (js ''A dog ran home'') True = Inr (Score (Fin 2))"
    by (simp add: textStandard_def fg)
  have sfx: "getGradeSuffix (Fin 1) = js ''st''" "getGradeSuffix (Fin 2) = js ''nd''"
    by (simp_all add: getGradeSuffix_def js_def)
  have d: "textStandard fixture (js ''A dog ran home'') False =
     Inr (GradeRange (Fin 1) (js ''st'') (Fin 2) (js ''nd''))"
    by (simp add: textStandard_def fg jsub_def sfx)
  have e: "Fin 1 \<in> set ?g" by (simp add: dog_standard_grades)
  from textStandard_mode [of fixture "js ''A dog ran home''"]
  obtain w where w: "textStandard fixture (js ''A dog ran home'') True = Inr (Score w)"
    and le: "\<forall>v \<in> set ?g. votes ?g v \<le> votes ?g w"
    by blast
  from w c have "w = Fin 2" by simp
  with le e have f: "votes ?g (Fin 1) \<le> votes ?g (Fin 2)" by blast
  from dog_standard_grades a b c d e f show ?thesis by blast
qed

text \<open>
  The claim as stated fails when \<open>NaN\<close> is the most frequent vote. On the empty text five
  of the fifteen votes are \<open>NaN\<close> and three are \<open>0\<close>; the selected score is \<open>0\<close>.
\<close>

lemma empty_scores:
  "fleschKincaidGrade fixture (js '''') = Fin (- 15.7)"
  "fleschReadingEase fixture (js '''') = Fin 206.84"
  "colemanLiauIndex (js '''') = NaN"
  "automatedReadabilityIndex (js '''') = Fin 0"
  "daleChallReadabilityScore fixture (js '''') = Fin 0"
  "linsearWriteFormula fixture (js '''') = Fin (- 1.1)"
  "gunningFog fixture (js '''') = Fin 0"
  by code_simp+

lemma empty_smog: "smogIndex fixture (js '''') = Fin 0"
proof -
  have "sentenceCount (js '''') = 1" by code_simp
  then show ?thesis by (simp add: smogIndex_def)
qed

lemma empty_standard_grades:
  "textStandardGrades fixture (js '''') =
     [Fin (- 17), Fin (- 15), Fin 16, NaN, Fin 0, NaN, NaN, NaN, Fin 0,
      Fin 4, Fin 4, Fin (- 2), Fin (- 1), NaN, Fin 0]"
  by (simp add: textStandardGrades_def empty_scores empty_smog fleschReadingEaseToGrade_def
      daleChallToGrade_def jge_def legacyRound_def copySign_def inf_of_sign_def)

lemma empty_finalGrade:
  "finalGrade [Fin (- 17), Fin (- 15), Fin 16, NaN, Fin 0, NaN, NaN, NaN, Fin 0,
      Fin 4, Fin 4, Fin (- 2), Fin (- 1), NaN, Fin 0] = Inr (Fin 0, 3)"
  by (simp add: finalGrade_def distinctValues_def Set_add_def votes_def strictEq_def
      reduce_js_def)

theorem textStandard_NaN_counterexample:
  "textStandardGrades fixture (js '''') =
     [Fin (- 17), Fin (- 15), Fin 16, NaN, Fin 0, NaN, NaN, NaN, Fin 0,
      Fin 4, Fin 4, Fin (- 2), Fin (- 1), NaN, Fin 0] \<and>
   count_list (textStandardGrades fixture (js '''')) NaN = 5 \<and>
   count_list (textStandardGrades fixture (js '''')) (Fin 0) = 3 \<and>
   textStandard fixture (js '''') True = Inr (Score (Fin 0))"
proof -
  have "finalGrade (textStandardGrades fixture (js '''')) = Inr (Fin 0, 3)"
    by (simp only: empty_standard_grades empty_finalGrade)
  then have "textStandard fixture (js '''') True = Inr (Score (Fin 0))"
    by (simp add: textStandard_def)
  then show ?thesis by (simp add: empty_standard_grades)
qed

end
